theory Spec2Isabelle
  imports Main "HOL-Library.Word" "HOL-Library.Sublist"
begin

section \<open>Data model of package metacmd\<close>

text \<open>
  Go strings are byte sequences; \<^typ>\<open>string\<close> is a list of 8-bit characters, so
  \<open>len(s)\<close> is \<^const>\<open>length\<close>, \<open>s[i]\<close> is \<open>s ! i\<close> and \<open>s[1:]\<close> is \<open>drop 1 s\<close>.
\<close>

text \<open>
  The \<open>error\<close> interface. \<open>text.ErrInvalidFormatOption\<close> is the one named error that
  \<open>ParseParams\<close> mentions; every other error value (those of the parameter decoder) is
  opaque and carried by its message.
\<close>

datatype error = ErrInvalidFormatOption | ErrOther string

text \<open>\<open>type ExecType int\<close> with its seven \<open>iota\<close> constants.\<close>

datatype ExecType =
  ExecNone | ExecOnly | ExecPipe | ExecSet | ExecExec | ExecCrosstab | ExecWatch

text \<open>
  \<open>type Option struct\<close>. A Go map value may be \<open>nil\<close>: \<open>Params\<close> is \<open>None\<close> for the
  nil map and \<open>Some m\<close> for an allocated one. \<open>time.Duration\<close> is an \<open>int64\<close>.
\<close>

record Option =
  Quit :: bool
  Exec :: ExecType
  Params :: "(string \<rightharpoonup> string) option"
  Crosstab :: "string list"
  Watch :: "64 word"

section \<open>The functions of package strings that ParseParams calls\<close>

text \<open>\<open>strings.Join(elems, sep)\<close>: the elements with \<open>sep\<close> between neighbours.\<close>

fun Join :: "string list \<Rightarrow> string \<Rightarrow> string" where
  "Join [] sep = []"
| "Join [x] sep = x"
| "Join (x # y # ys) sep = x @ sep @ Join (y # ys) sep"

text \<open>\<open>strings.Index(s, sep)\<close> for a non-empty \<open>sep\<close>; \<open>None\<close> stands for \<open>-1\<close>.\<close>

fun Index :: "string \<Rightarrow> string \<Rightarrow> nat option" where
  "Index [] sep = (if prefix sep [] then Some 0 else None)"
| "Index (c # cs) sep =
     (if prefix sep (c # cs) then Some 0 else map_option Suc (Index cs sep))"

text \<open>
  \<open>strings.SplitN(s, sep, n)\<close> for a non-empty \<open>sep\<close> and \<open>n \<ge> 0\<close>: at most \<open>n\<close>
  substrings, the last one being the unsplit remainder; \<open>n = 0\<close> gives no substring.
\<close>

fun SplitN :: "string \<Rightarrow> string \<Rightarrow> nat \<Rightarrow> string list" where
  "SplitN s sep 0 = []"
| "SplitN s sep (Suc 0) = [s]"
| "SplitN s sep (Suc (Suc n)) =
     (case Index s sep of
        None \<Rightarrow> [s]
      | Some i \<Rightarrow> take i s # SplitN (drop (i + length sep) s) sep (Suc n))"

text \<open>
  \<open>strings.TrimLeft(s, cutset)\<close> and \<open>strings.TrimRight(s, cutset)\<close>: \<open>s\<close> without
  \<^emph>\<open>all\<close> its leading (trailing) characters that occur in \<open>cutset\<close>.
\<close>

definition TrimLeft :: "string \<Rightarrow> string \<Rightarrow> string" where
  "TrimLeft s cutset = dropWhile (\<lambda>c. c \<in> set cutset) s"

definition TrimRight :: "string \<Rightarrow> string \<Rightarrow> string" where
  "TrimRight s cutset = rev (dropWhile (\<lambda>c. c \<in> set cutset) (rev s))"

section \<open>Option.ParseParams\<close>

text \<open>
  The \<open>for i, param := range params\<close> loop. The list argument is \<open>params[i:]\<close>, the
  Boolean is the local \<open>formatOptions\<close>, the map is \<open>opt.Params\<close>; the result is the map
  at the moment the function returns, with the returned error (\<open>None\<close> is \<open>nil\<close>).
  Every \<open>return\<close> of the source is a branch that does not recurse.
\<close>

fun scan :: "string \<Rightarrow> bool \<Rightarrow> (string \<rightharpoonup> string) \<Rightarrow> string list
    \<Rightarrow> (string \<rightharpoonup> string) \<times> error option" where
  "scan defaultKey formatOptions m [] = (m, None)"
| "scan defaultKey formatOptions m (param # rest) =
     (if length param = 0 then scan defaultKey formatOptions m rest
      else if \<not> formatOptions \<and> param ! 0 \<noteq> CHR ''(''
        then (m(defaultKey \<mapsto> Join (param # rest) '' ''), None)
      else
        let formatOptions1 = True;
            parts = SplitN param ''='' 2
        in if length parts = 1 then (m, Some ErrInvalidFormatOption)
           else
             let m1 = m(TrimLeft (parts ! 0) ''('' \<mapsto> TrimRight (parts ! 1) '')'');
                 formatOptions2 =
                   (if formatOptions1 \<and> param ! (length param - 1) = CHR '')''
                    then False else formatOptions1)
             in scan defaultKey formatOptions2 m1 rest)"

text \<open>
  The method itself. A nil \<open>opt.Params\<close> is replaced by a fresh empty map before the
  loop; the receiver is a pointer, so the updated \<open>Option\<close> is returned with the error.
\<close>

definition ParseParams :: "Option \<Rightarrow> string list \<Rightarrow> string \<Rightarrow> Option \<times> error option" where
  "ParseParams opt params defaultKey =
     (let opt1 = (if Params opt = None then opt\<lparr>Params := Some Map.empty\<rparr> else opt);
          (m, err) = scan defaultKey False (the (Params opt1)) params
      in (opt1\<lparr>Params := Some m\<rparr>, err))"

text \<open>The zero value \<open>Option{}\<close>: every field zero, both reference fields nil.\<close>

definition Option_zero :: Option where
  "Option_zero = \<lparr>Quit = False, Exec = ExecNone, Params = None, Crosstab = [], Watch = 0\<rparr>"

text \<open>What a lookup in \<open>opt.Params\<close> finds: a nil map reads as an empty one.\<close>

definition entries :: "Option \<Rightarrow> (string \<rightharpoonup> string)" where
  "entries opt = (case Params opt of None \<Rightarrow> Map.empty | Some m \<Rightarrow> m)"

subsection \<open>What one call of the scanner does, as a trace\<close>

text \<open>
  Three observations of a run of the loop, each following the control flow of \<open>scan\<close>
  branch by branch. \<open>list_tokens\<close> are the tokens for which the split of line 148 is
  executed (the tokens handled in list mode), in order, up to and including a token on
  which the function returns the error.
\<close>

fun list_tokens :: "bool \<Rightarrow> string list \<Rightarrow> string list" where
  "list_tokens formatOptions [] = []"
| "list_tokens formatOptions (param # rest) =
     (if length param = 0 then list_tokens formatOptions rest
      else if \<not> formatOptions \<and> param ! 0 \<noteq> CHR ''('' then []
      else if length (SplitN param ''='' 2) = 1 then [param]
      else param # list_tokens (param ! (length param - 1) \<noteq> CHR '')'') rest)"

text \<open>
  \<open>free_form\<close> is the value assigned to \<open>opt.Params[defaultKey]\<close> at line 144, when the
  run reaches that line; \<open>None\<close> when it never does.
\<close>

fun free_form :: "bool \<Rightarrow> string list \<Rightarrow> string option" where
  "free_form formatOptions [] = None"
| "free_form formatOptions (param # rest) =
     (if length param = 0 then free_form formatOptions rest
      else if \<not> formatOptions \<and> param ! 0 \<noteq> CHR ''(''
        then Some (Join (param # rest) '' '')
      else if length (SplitN param ''='' 2) = 1 then None
      else free_form (param ! (length param - 1) \<noteq> CHR '')'') rest)"

text \<open>The key and the value that line 152 stores for a token.\<close>

definition pair_of :: "string \<Rightarrow> string \<times> string" where
  "pair_of param =
     (let parts = SplitN param ''='' 2
      in (TrimLeft (parts ! 0) ''('', TrimRight (parts ! 1) '')''))"

text \<open>\<open>list_pairs\<close> are the pairs stored at line 152, in the order they are stored.\<close>

definition list_pairs :: "bool \<Rightarrow> string list \<Rightarrow> (string \<times> string) list" where
  "list_pairs formatOptions params =
     map pair_of (filter (\<lambda>param. length (SplitN param ''='' 2) \<noteq> 1)
       (list_tokens formatOptions params))"

subsection \<open>Stripping exactly one character\<close>

text \<open>
  The reading of ``a leading \<open>(\<close> stripped'' and ``a trailing \<open>)\<close> stripped'' that
  removes one character, to compare with what \<open>TrimLeft\<close> and \<open>TrimRight\<close> do.
\<close>

definition strip_one_leading :: "char \<Rightarrow> string \<Rightarrow> string" where
  "strip_one_leading c s = (if s \<noteq> [] \<and> hd s = c then tl s else s)"

definition strip_one_trailing :: "char \<Rightarrow> string \<Rightarrow> string" where
  "strip_one_trailing c s = (if s \<noteq> [] \<and> last s = c then butlast s else s)"

subsection \<open>An Option with every field set\<close>

text \<open>A value on which a change of any field would show.\<close>

definition Option_example :: Option where
  "Option_example =
     \<lparr>Quit = True, Exec = ExecPipe, Params = Some [''x'' \<mapsto> ''y'', ''a'' \<mapsto> ''0''],
      Crosstab = [''c''], Watch = 5\<rparr>"

section \<open>Params.Get and Params.GetOptional\<close>

text \<open>
  \<open>p.Params.Get(env.Unquote(...))\<close> belongs to package stmt; its result
  \<open>(ok, v, err)\<close> is the argument here. \<open>Get\<close> drops \<open>ok\<close> and returns the empty string
  with the error when there is one.
\<close>

definition Get :: "bool \<times> string \<times> error option \<Rightarrow> string \<times> error option" where
  "Get r = (case r of (ok, v, err) \<Rightarrow> if err \<noteq> None then ([], err) else (v, None))"

definition GetOptional :: "bool \<times> string \<times> error option \<Rightarrow> bool \<times> string \<times> error option" where
  "GetOptional r =
     (case Get r of (v, err) \<Rightarrow>
        if err \<noteq> None then (False, [], err)
        else if length v > 0 \<and> v ! 0 = CHR ''-'' then (True, drop 1 v, None)
        else (False, v, None))"

section \<open>Facts about the string functions\<close>

lemma Index_single:
  "Index s [c] = (if c \<in> set s then Some (length (takeWhile (\<lambda>x. x \<noteq> c) s)) else None)"
  by (induction s) auto

lemma SplitN_two:
  "SplitN s [c] 2 =
     (if c \<in> set s then [takeWhile (\<lambda>x. x \<noteq> c) s, tl (dropWhile (\<lambda>x. x \<noteq> c) s)] else [s])"
proof -
  have two: "(2::nat) = Suc (Suc 0)" by simp
  have t: "take (length (takeWhile (\<lambda>x. x \<noteq> c) s)) s = takeWhile (\<lambda>x. x \<noteq> c) s"
    by (simp add: takeWhile_eq_take [symmetric])
  have d: "drop (Suc (length (takeWhile (\<lambda>x. x \<noteq> c) s))) s = tl (dropWhile (\<lambda>x. x \<noteq> c) s)"
    by (simp add: dropWhile_eq_drop drop_Suc tl_drop)
  show ?thesis
    unfolding two by (simp add: Index_single t d)
qed

lemma TrimLeft_paren: "TrimLeft s ''('' = dropWhile (\<lambda>c. c = CHR ''('') s"
  by (simp add: TrimLeft_def)

lemma TrimRight_paren: "TrimRight s '')'' = rev (dropWhile (\<lambda>c. c = CHR '')'') (rev s))"
  by (simp add: TrimRight_def)

lemma SplitN_first_occurrence:
  "c \<notin> set l \<Longrightarrow> SplitN (l @ c # r) [c] 2 = [l, r]"
  by (simp add: SplitN_two takeWhile_append dropWhile_append)

section \<open>One iteration of the loop\<close>

lemma scan_skip: "scan dk fo m ([] # ps) = scan dk fo m ps"
  by simp

lemma scan_free:
  "p \<noteq> [] \<Longrightarrow> \<not> fo \<Longrightarrow> p ! 0 \<noteq> CHR ''('' \<Longrightarrow>
   scan dk fo m (p # ps) = (m(dk \<mapsto> Join (p # ps) '' ''), None)"
  by simp

lemma scan_fail:
  "p \<noteq> [] \<Longrightarrow> fo \<or> p ! 0 = CHR ''('' \<Longrightarrow> CHR ''='' \<notin> set p \<Longrightarrow>
   scan dk fo m (p # ps) = (m, Some ErrInvalidFormatOption)"
  by (auto simp: SplitN_two)

lemma scan_pair:
  "p \<noteq> [] \<Longrightarrow> fo \<or> p ! 0 = CHR ''('' \<Longrightarrow> CHR ''='' \<in> set p \<Longrightarrow>
   scan dk fo m (p # ps) =
     scan dk (p ! (length p - 1) \<noteq> CHR '')'') (m(fst (pair_of p) \<mapsto> snd (pair_of p))) ps"
  by (auto simp: SplitN_two pair_of_def Let_def)

lemma list_pairs_skip: "list_pairs fo ([] # ps) = list_pairs fo ps"
  by (simp add: list_pairs_def)

lemma list_pairs_free:
  "p \<noteq> [] \<Longrightarrow> \<not> fo \<Longrightarrow> p ! 0 \<noteq> CHR ''('' \<Longrightarrow> list_pairs fo (p # ps) = []"
  by (simp add: list_pairs_def)

lemma list_pairs_fail:
  "p \<noteq> [] \<Longrightarrow> fo \<or> p ! 0 = CHR ''('' \<Longrightarrow> CHR ''='' \<notin> set p \<Longrightarrow>
   list_pairs fo (p # ps) = []"
  by (auto simp: list_pairs_def SplitN_two)

lemma list_pairs_pair:
  "p \<noteq> [] \<Longrightarrow> fo \<or> p ! 0 = CHR ''('' \<Longrightarrow> CHR ''='' \<in> set p \<Longrightarrow>
   list_pairs fo (p # ps) = pair_of p # list_pairs (p ! (length p - 1) \<noteq> CHR '')'') ps"
  by (auto simp: list_pairs_def SplitN_two)

section \<open>The whole loop in terms of its trace\<close>

lemma map_add_upd_left:
  "m(fst kv \<mapsto> snd kv) ++ map_of (rev L) = m ++ map_of (rev (kv # L))"
  by (rule ext) (simp add: map_add_def split: option.split)

text \<open>
  The map at return is the map at entry, overridden by the stored pairs (a later pair
  wins over an earlier one with the same key), overridden by the free-form value under
  the default key; the error is \<open>ErrInvalidFormatOption\<close> exactly when a token handled in
  list mode has no \<open>=\<close>.
\<close>

lemma scan_char:
  "scan dk fo m ps =
     (m ++ map_of (rev (list_pairs fo ps)) ++
        (case free_form fo ps of None \<Rightarrow> Map.empty | Some v \<Rightarrow> [dk \<mapsto> v]),
      (if \<exists>t\<in>set (list_tokens fo ps). CHR ''='' \<notin> set t
       then Some ErrInvalidFormatOption else None))"
proof (induction ps arbitrary: fo m)
  case Nil
  show ?case by (simp add: list_pairs_def)
next
  case (Cons p ps)
  consider (skip) "p = []"
    | (free) "p \<noteq> []" "\<not> fo" "p ! 0 \<noteq> CHR ''(''"
    | (fail) "p \<noteq> []" "fo \<or> p ! 0 = CHR ''(''" "CHR ''='' \<notin> set p"
    | (pair) "p \<noteq> []" "fo \<or> p ! 0 = CHR ''(''" "CHR ''='' \<in> set p"
    by blast
  then show ?case
  proof cases
    case skip
    then show ?thesis by (simp add: Cons.IH list_pairs_skip)
  next
    case free
    have lt: "list_tokens fo (p # ps) = []"
      using free by simp
    have ff: "free_form fo (p # ps) = Some (Join (p # ps) '' '')"
      using free by simp
    show ?thesis
      unfolding scan_free [OF free] list_pairs_free [OF free] lt ff
      by (auto simp: map_add_def fun_eq_iff)
  next
    case fail
    then show ?thesis by (auto simp: list_pairs_fail SplitN_two)
  next
    case pair
    have lt: "list_tokens fo (p # ps) = p # list_tokens (p ! (length p - 1) \<noteq> CHR '')'') ps"
      using pair by (auto simp: SplitN_two)
    have ff: "free_form fo (p # ps) = free_form (p ! (length p - 1) \<noteq> CHR '')'') ps"
      using pair by (auto simp: SplitN_two)
    show ?thesis
      unfolding scan_pair [OF pair] Cons.IH list_pairs_pair [OF pair] lt ff
      using pair(3) by (simp only: map_add_upd_left set_simps) simp
  qed
qed

lemma ParseParams_scan:
  "ParseParams opt params dk =
     (opt\<lparr>Params := Some (fst (scan dk False (entries opt) params))\<rparr>,
      snd (scan dk False (entries opt) params))"
  by (cases "Params opt") (simp_all add: ParseParams_def entries_def split_beta)

lemma scan_leading_empties:
  "\<forall>e\<in>set es. e = [] \<Longrightarrow> scan dk fo m (es @ ps) = scan dk fo m ps"
  by (induction es) simp_all

lemma list_tokens_leading_empties:
  "\<forall>e\<in>set es. e = [] \<Longrightarrow> list_tokens fo (es @ ps) = list_tokens fo ps"
  by (induction es) simp_all

section \<open>The free-form branch\<close>

text \<open>
  Claim C1. When the first non-empty token \<open>t\<close> (after any number of empty tokens \<open>es\<close>)
  does not begin with \<open>(\<close>, \<open>ParseParams\<close> returns no error, stores under the default key
  \<open>t\<close> and all the tokens after it joined with single spaces, changes no other key of
  the map, and handles no token in list mode (nothing is split at \<open>=\<close>).
\<close>

theorem C1_free_form:
  assumes "\<forall>e\<in>set es. e = []" and "t \<noteq> []" and "t ! 0 \<noteq> CHR ''(''"
  shows "ParseParams opt (es @ t # rest) defaultKey =
           (opt\<lparr>Params := Some ((entries opt)(defaultKey \<mapsto> Join (t # rest) '' ''))\<rparr>, None)
         \<and> list_tokens False (es @ t # rest) = []"
  using assms
  by (simp add: ParseParams_scan scan_leading_empties list_tokens_leading_empties)

theorem C1_free_form_witness:
  "ParseParams Option_zero ['''', ''foo=bar'', ''x''] ''key'' =
     (Option_zero\<lparr>Params := Some [''key'' \<mapsto> ''foo=bar x'']\<rparr>, None)
   \<and> list_tokens False ['''', ''foo=bar'', ''x''] = []"
  using C1_free_form [of "['''']" "''foo=bar''" Option_zero "[''x'']" "''key''"]
  by (simp add: entries_def Option_zero_def)

section \<open>The token ()\<close>

text \<open>
  Claim C2 fails as stated. On the single token \<open>()\<close> the call does not succeed: the
  token enters list mode, has no \<open>=\<close>, and line 150 returns the error; the map stays
  empty.
\<close>

theorem C2_counterexample:
  "snd (ParseParams Option_zero [''()''] ''key'') = Some ErrInvalidFormatOption
   \<and> Params (fst (ParseParams Option_zero [''()''] ''key'')) = Some Map.empty"
  by (simp add: ParseParams_scan SplitN_two entries_def Option_zero_def)

text \<open>
  Claim C2, as amended. \<open>ParseParams\<close> on the single token \<open>()\<close> returns
  \<open>ErrInvalidFormatOption\<close> and stores nothing; it is the single token \<open>(=)\<close> that opens
  and closes the list in one step, returns no error and stores the empty key with the
  empty value.
\<close>

theorem C2_empty_parens:
  "ParseParams opt [''()''] defaultKey =
     (opt\<lparr>Params := Some (entries opt)\<rparr>, Some ErrInvalidFormatOption)
   \<and> ParseParams opt [''(=)''] defaultKey =
     (opt\<lparr>Params := Some ((entries opt)('''' \<mapsto> ''''))\<rparr>, None)"
  by (simp add: ParseParams_scan SplitN_two TrimLeft_def TrimRight_def)

section \<open>When ParseParams fails\<close>

text \<open>
  Claim C3. \<open>ParseParams\<close> returns an error exactly when one of the tokens it handles in
  list mode (the token that opened the list included) contains no \<open>=\<close>; the error is then
  \<open>ErrInvalidFormatOption\<close> and never another one. The tokens \<open>["(x)"]\<close> fail with it.
\<close>

theorem C3_error_iff:
  "snd (ParseParams opt params defaultKey) =
     (if \<exists>t\<in>set (list_tokens False params). CHR ''='' \<notin> set t
      then Some ErrInvalidFormatOption else None)
   \<and> snd (ParseParams opt [''(x)''] defaultKey) = Some ErrInvalidFormatOption"
  by (simp add: ParseParams_scan scan_char SplitN_two)

section \<open>Keys written by one call\<close>

text \<open>
  Claim C4 fails as stated. With the tokens \<open>["(a=1)", "foo"]\<close> and the default key \<open>a\<close>
  the call returns no error, the default key is set (to \<open>foo\<close>), and the default key is
  the key of a pair stored from the list by the same call.
\<close>

theorem C4_counterexample:
  "snd (ParseParams Option_zero [''(a=1)'', ''foo''] ''a'') = None
   \<and> free_form False [''(a=1)'', ''foo''] = Some ''foo''
   \<and> list_pairs False [''(a=1)'', ''foo''] = [(''a'', ''1'')]
   \<and> Params (fst (ParseParams Option_zero [''(a=1)'', ''foo''] ''a'')) = Some [''a'' \<mapsto> ''foo'']"
  by (simp add: ParseParams_scan SplitN_two TrimLeft_def TrimRight_def entries_def
      Option_zero_def list_pairs_def pair_of_def)

text \<open>
  Claim C4, as amended. If \<open>ParseParams\<close> returns without error then every key of
  \<open>Params\<close> holds one value, that of the last write to it: the default key, if this call
  set it, holds the free-form value, also when a pair stored from a list by this call
  has the same key (that pair is overwritten); every other key holds the value of the
  last pair stored under it by this call, or else what it held before the call.
\<close>

theorem C4_last_write_wins:
  assumes "snd (ParseParams opt params defaultKey) = None"
  shows "(free_form False params = Some v \<longrightarrow>
            the (Params (fst (ParseParams opt params defaultKey))) defaultKey = Some v)
    \<and> (free_form False params = None \<or> k \<noteq> defaultKey \<longrightarrow>
          the (Params (fst (ParseParams opt params defaultKey))) k =
            (case map_of (rev (list_pairs False params)) k of
               Some w \<Rightarrow> Some w | None \<Rightarrow> entries opt k))"
  by (cases "free_form False params")
    (auto simp: ParseParams_scan scan_char map_add_def split: option.split)

theorem C4_last_write_wins_witness:
  "snd (ParseParams Option_zero [''(a=1'', ''b=2'', ''a=3)'', '''', ''foo'', ''bar''] ''a'') = None
   \<and> the (Params (fst (ParseParams Option_zero
         [''(a=1'', ''b=2'', ''a=3)'', '''', ''foo'', ''bar''] ''a''))) ''a'' = Some ''foo bar''
   \<and> the (Params (fst (ParseParams Option_zero
         [''(a=1'', ''b=2'', ''a=3)'', '''', ''foo'', ''bar''] ''a''))) ''b'' = Some ''2''"
proof -
  have h: "snd (ParseParams Option_zero
      [''(a=1'', ''b=2'', ''a=3)'', '''', ''foo'', ''bar''] ''a'') = None"
    by (simp add: ParseParams_scan SplitN_two)
  show ?thesis
    using C4_last_write_wins [OF h, of "''foo bar''" "''b''"]
    by (simp add: ParseParams_scan SplitN_two TrimLeft_def TrimRight_def entries_def
        Option_zero_def)
qed

section \<open>Leaving list mode\<close>

text \<open>
  Claim C5 fails as stated. A token handled in list mode that ends with \<open>)\<close> but has no
  \<open>=\<close> makes line 150 return the error before lines 153 to 155 are reached: on
  \<open>["(x)", "foo"]\<close> and on \<open>["(a=1", "b)", "foo"]\<close> the call fails, the token \<open>foo\<close> is never
  looked at and nothing is stored under the default key.
\<close>

theorem C5_counterexample:
  "''(x)'' ! (length ''(x)'' - 1) = CHR '')''
   \<and> list_tokens False [''(x)'', ''foo''] = [''(x)'']
   \<and> free_form False [''(x)'', ''foo''] = None
   \<and> ParseParams Option_zero [''(x)'', ''foo''] ''key'' =
       (Option_zero\<lparr>Params := Some Map.empty\<rparr>, Some ErrInvalidFormatOption)
   \<and> ''b)'' ! (length ''b)'' - 1) = CHR '')''
   \<and> list_tokens False [''(a=1'', ''b)'', ''foo''] = [''(a=1'', ''b)'']
   \<and> ParseParams Option_zero [''(a=1'', ''b)'', ''foo''] ''key'' =
       (Option_zero\<lparr>Params := Some [''a'' \<mapsto> ''1'']\<rparr>, Some ErrInvalidFormatOption)"
  by (simp add: ParseParams_scan SplitN_two TrimLeft_def TrimRight_def entries_def
      Option_zero_def)

text \<open>
  Claim C5, as amended. When a token handled in list mode (the scanner is in list mode,
  or the token opens the list) contains \<open>=\<close> and ends with \<open>)\<close>, the rest of the tokens is
  scanned exactly as by a scan
  that has not entered a list, from the map with this token's pair stored. So a next
  non-empty token \<open>t\<close> that does not begin with \<open>(\<close> takes the free-form branch and stores
  \<open>t\<close> and all tokens after it, joined with single spaces, under the default key; a next
  token that begins with \<open>(\<close> is handled in list mode again; and a call whose first token
  opens and closes a list continues as a fresh call on the remaining tokens. The tokens
  \<open>["(a=1)", "(b=2)"]\<close> store both pairs.
\<close>

theorem C5_list_close:
  assumes "p \<noteq> []" and "fo \<or> p ! 0 = CHR ''(''" and "CHR ''='' \<in> set p"
    and "p ! (length p - 1) = CHR '')''"
  shows "scan dk fo m (p # ps) = scan dk False (m(fst (pair_of p) \<mapsto> snd (pair_of p))) ps
    \<and> (t \<noteq> [] \<and> t ! 0 \<noteq> CHR ''('' \<longrightarrow>
          scan dk fo m (p # t # rest) =
            ((m(fst (pair_of p) \<mapsto> snd (pair_of p)))(dk \<mapsto> Join (t # rest) '' ''), None))
    \<and> (t \<noteq> [] \<and> t ! 0 = CHR ''('' \<and> CHR ''='' \<in> set t \<longrightarrow>
          scan dk fo m (p # t # rest) =
            scan dk (t ! (length t - 1) \<noteq> CHR '')'')
              (m(fst (pair_of p) \<mapsto> snd (pair_of p), fst (pair_of t) \<mapsto> snd (pair_of t))) rest)
    \<and> (p ! 0 = CHR ''('' \<longrightarrow>
          ParseParams opt (p # ps) dk =
            ParseParams (opt\<lparr>Params := Some ((entries opt)(fst (pair_of p) \<mapsto> snd (pair_of p)))\<rparr>) ps dk)
    \<and> ParseParams opt [''(a=1)'', ''(b=2)''] dk =
          (opt\<lparr>Params := Some ((entries opt)(''a'' \<mapsto> ''1'', ''b'' \<mapsto> ''2''))\<rparr>, None)"
proof -
  have step: "scan dk fo m (p # ps') =
      scan dk False (m(fst (pair_of p) \<mapsto> snd (pair_of p))) ps'" for ps'
    using scan_pair [OF assms(1-3)] assms(4) by simp
  have free: "scan dk fo m (p # t # rest) =
      ((m(fst (pair_of p) \<mapsto> snd (pair_of p)))(dk \<mapsto> Join (t # rest) '' ''), None)"
    if "t \<noteq> []" "t ! 0 \<noteq> CHR ''(''"
    unfolding step using that by (simp add: scan_free del: scan.simps)
  have reopen: "scan dk fo m (p # t # rest) =
      scan dk (t ! (length t - 1) \<noteq> CHR '')'')
        (m(fst (pair_of p) \<mapsto> snd (pair_of p), fst (pair_of t) \<mapsto> snd (pair_of t))) rest"
    if "t \<noteq> []" "t ! 0 = CHR ''(''" "CHR ''='' \<in> set t"
    unfolding step using that by (simp add: scan_pair del: scan.simps)
  have whole: "ParseParams opt (p # ps) dk =
      ParseParams (opt\<lparr>Params := Some ((entries opt)(fst (pair_of p) \<mapsto> snd (pair_of p)))\<rparr>) ps dk"
    if "p ! 0 = CHR ''(''"
    using that assms scan_pair [of p False dk "entries opt" ps]
    by (simp add: ParseParams_scan entries_def)
  have ex: "ParseParams opt [''(a=1)'', ''(b=2)''] dk =
      (opt\<lparr>Params := Some ((entries opt)(''a'' \<mapsto> ''1'', ''b'' \<mapsto> ''2''))\<rparr>, None)"
    by (simp add: ParseParams_scan SplitN_two TrimLeft_def TrimRight_def)
  show ?thesis
    using step free reopen whole ex by blast
qed

theorem C5_list_close_witness:
  "scan ''key'' False Map.empty [''(a=1)'', ''foo'', ''bar''] =
     ([''a'' \<mapsto> ''1'', ''key'' \<mapsto> ''foo bar''], None)
   \<and> scan ''key'' False Map.empty [''(a=1)'', ''(b=2'', ''c=3)''] =
     ([''a'' \<mapsto> ''1'', ''b'' \<mapsto> ''2'', ''c'' \<mapsto> ''3''], None)"
proof -
  have h: "''(a=1)'' \<noteq> []" "False \<or> ''(a=1)'' ! 0 = CHR ''(''" "CHR ''='' \<in> set ''(a=1)''"
    "''(a=1)'' ! (length ''(a=1)'' - 1) = CHR '')''"
    by simp_all
  show ?thesis
    using C5_list_close [OF h, of "''key''" Map.empty "[]" "''foo''" "[''bar'']" Option_zero]
      C5_list_close [OF h, of "''key''" Map.empty "[]" "''(b=2''" "[''c=3)'']" Option_zero]
    by (simp add: pair_of_def SplitN_two TrimLeft_def TrimRight_def)
qed

section \<open>Splitting a token and storing the pair\<close>

text \<open>
  Claim C6 fails as stated. \<open>TrimLeft\<close> removes every leading \<open>(\<close> and \<open>TrimRight\<close> every
  trailing \<open>)\<close>: for the token \<open>((a=1))\<close> the parts are \<open>((a\<close> and \<open>1))\<close>; with one
  character stripped from each the key would be \<open>(a\<close> and the value \<open>1)\<close>, but nothing is
  stored under \<open>(a\<close> and the pair stored is \<open>a \<mapsto> 1\<close>.
\<close>

theorem C6_counterexample:
  "SplitN ''((a=1))'' ''='' 2 = [''((a'', ''1))'']
   \<and> strip_one_leading CHR ''('' ''((a'' = ''(a''
   \<and> strip_one_trailing CHR '')'' ''1))'' = ''1)''
   \<and> the (Params (fst (ParseParams Option_zero [''((a=1))''] ''key''))) ''(a'' = None
   \<and> the (Params (fst (ParseParams Option_zero [''((a=1))''] ''key''))) ''a'' = Some ''1''"
  by (simp add: ParseParams_scan SplitN_two TrimLeft_def TrimRight_def entries_def
      Option_zero_def strip_one_leading_def strip_one_trailing_def)

text \<open>
  Claim C6, as amended. A token handled in list mode is split at its first \<open>=\<close> (\<open>l\<close> is
  the part before it, \<open>r\<close> the part after it); the key stored is \<open>l\<close> without all its
  leading \<open>(\<close> and the value stored is \<open>r\<close> without all its trailing \<open>)\<close>; a value stored
  earlier under the same key is overwritten, so it has no influence on the result. The
  tokens \<open>["(a=1", "a=2)"]\<close> store \<open>a \<mapsto> 2\<close>.
\<close>

theorem C6_split_and_store:
  assumes "p = l @ CHR ''='' # r" and "CHR ''='' \<notin> set l" and "fo \<or> p ! 0 = CHR ''(''"
  shows "SplitN p ''='' 2 = [l, r]
    \<and> scan dk fo m (p # ps) =
        scan dk (p ! (length p - 1) \<noteq> CHR '')'')
          (m(dropWhile (\<lambda>c. c = CHR ''('') l \<mapsto> rev (dropWhile (\<lambda>c. c = CHR '')'') (rev r)))) ps
    \<and> scan dk fo (m(dropWhile (\<lambda>c. c = CHR ''('') l \<mapsto> v0)) (p # ps) = scan dk fo m (p # ps)
    \<and> ParseParams opt [''(a=1'', ''a=2)''] dk =
        (opt\<lparr>Params := Some ((entries opt)(''a'' \<mapsto> ''2''))\<rparr>, None)"
proof -
  have sp: "SplitN p ''='' 2 = [l, r]"
    using assms(1,2) by (simp add: SplitN_first_occurrence)
  have ne: "p \<noteq> []" and eq: "CHR ''='' \<in> set p"
    using assms(1) by simp_all
  have po: "pair_of p =
      (dropWhile (\<lambda>c. c = CHR ''('') l, rev (dropWhile (\<lambda>c. c = CHR '')'') (rev r)))"
    by (simp add: pair_of_def sp TrimLeft_paren TrimRight_paren)
  have st: "scan dk fo m' (p # ps) =
      scan dk (p ! (length p - 1) \<noteq> CHR '')'')
        (m'(dropWhile (\<lambda>c. c = CHR ''('') l \<mapsto> rev (dropWhile (\<lambda>c. c = CHR '')'') (rev r)))) ps"
    for m'
    using scan_pair [OF ne assms(3) eq] by (simp add: po)
  have ow: "scan dk fo (m(dropWhile (\<lambda>c. c = CHR ''('') l \<mapsto> v0)) (p # ps) = scan dk fo m (p # ps)"
    by (simp only: st fun_upd_upd)
  have ex: "ParseParams opt [''(a=1'', ''a=2)''] dk =
      (opt\<lparr>Params := Some ((entries opt)(''a'' \<mapsto> ''2''))\<rparr>, None)"
    by (simp add: ParseParams_scan SplitN_two TrimLeft_def TrimRight_def)
  show ?thesis
    using sp st ow ex by blast
qed

theorem C6_split_and_store_witness:
  "SplitN ''((a=b=c))'' ''='' 2 = [''((a'', ''b=c))'']
   \<and> scan ''key'' False Map.empty [''((a=b=c))''] = ([''a'' \<mapsto> ''b=c''], None)"
proof -
  have h: "''((a=b=c))'' = ''((a'' @ CHR ''='' # ''b=c))''" "CHR ''='' \<notin> set ''((a''"
    "False \<or> ''((a=b=c))'' ! 0 = CHR ''(''"
    by simp_all
  show ?thesis
    using C6_split_and_store [OF h, of "''key''" Map.empty "[]" "''''" Option_zero]
    by (simp del: scan.simps(2))
qed

section \<open>A list of two tokens\<close>

text \<open>
  Claim C7. On the tokens \<open>["(a=1", "b=2)"]\<close> \<open>ParseParams\<close> returns no error and stores
  exactly the pairs \<open>a \<mapsto> 1\<close> and \<open>b \<mapsto> 2\<close> (on a fresh \<open>Option\<close> the map is exactly these
  two); line 144 is not reached, so nothing is stored under the default key.
\<close>

theorem C7_two_token_list:
  "ParseParams opt [''(a=1'', ''b=2)''] defaultKey =
     (opt\<lparr>Params := Some ((entries opt)(''a'' \<mapsto> ''1'', ''b'' \<mapsto> ''2''))\<rparr>, None)
   \<and> free_form False [''(a=1'', ''b=2)''] = None
   \<and> Params (fst (ParseParams Option_zero [''(a=1'', ''b=2)''] defaultKey)) =
       Some [''a'' \<mapsto> ''1'', ''b'' \<mapsto> ''2'']"
  by (simp add: ParseParams_scan SplitN_two TrimLeft_def TrimRight_def entries_def Option_zero_def)

section \<open>Failure keeps what was stored\<close>

lemma scan_offending:
  "snd (scan dk fo m pre) = None \<Longrightarrow> snd (scan dk fo m (pre @ [t])) \<noteq> None \<Longrightarrow>
   scan dk fo m (pre @ t # post) =
     (m ++ map_of (rev (list_pairs fo pre)), Some ErrInvalidFormatOption)
   \<and> fst (scan dk fo m pre) = m ++ map_of (rev (list_pairs fo pre))"
proof (induction pre arbitrary: fo m)
  case Nil
  consider (skip) "t = []"
    | (free) "t \<noteq> []" "\<not> fo" "t ! 0 \<noteq> CHR ''(''"
    | (fail) "t \<noteq> []" "fo \<or> t ! 0 = CHR ''(''" "CHR ''='' \<notin> set t"
    | (pair) "t \<noteq> []" "fo \<or> t ! 0 = CHR ''(''" "CHR ''='' \<in> set t"
    by blast
  then show ?case
  proof cases
    case skip
    with Nil show ?thesis by simp
  next
    case free
    with Nil show ?thesis by simp
  next
    case fail
    then show ?thesis by (simp add: scan_fail list_pairs_def del: scan.simps(2))
  next
    case pair
    with Nil show ?thesis by (simp add: scan_pair del: scan.simps(2))
  qed
next
  case (Cons p pre)
  consider (skip) "p = []"
    | (free) "p \<noteq> []" "\<not> fo" "p ! 0 \<noteq> CHR ''(''"
    | (fail) "p \<noteq> []" "fo \<or> p ! 0 = CHR ''(''" "CHR ''='' \<notin> set p"
    | (pair) "p \<noteq> []" "fo \<or> p ! 0 = CHR ''(''" "CHR ''='' \<in> set p"
    by blast
  then show ?case
  proof cases
    case skip
    with Cons show ?thesis by (simp add: list_pairs_skip)
  next
    case free
    with Cons.prems show ?thesis by simp
  next
    case fail
    with Cons.prems show ?thesis by (simp add: scan_fail del: scan.simps(2))
  next
    case pair
    let ?fo = "p ! (length p - 1) \<noteq> CHR '')''"
    let ?m = "m(fst (pair_of p) \<mapsto> snd (pair_of p))"
    have a: "snd (scan dk ?fo ?m pre) = None"
      using Cons.prems(1) scan_pair [OF pair, of dk m pre] by simp
    have b: "snd (scan dk ?fo ?m (pre @ [t])) \<noteq> None"
      using Cons.prems(2) scan_pair [OF pair, of dk m "pre @ [t]"] by simp
    have c: "scan dk fo m ((p # pre) @ t # post) = scan dk ?fo ?m (pre @ t # post)"
      using scan_pair [OF pair, of dk m "pre @ t # post"] by simp
    have d: "scan dk fo m (p # pre) = scan dk ?fo ?m pre"
      using scan_pair [OF pair, of dk m pre] by simp
    show ?thesis
      unfolding c d list_pairs_pair [OF pair] map_add_upd_left [symmetric]
      by (rule Cons.IH [OF a b])
  qed
qed

text \<open>
  Claim C8. Let \<open>t\<close> be the offending token: the call on the tokens \<open>pre\<close> before it
  returns no error and the call on \<open>pre\<close> followed by \<open>t\<close> returns one. Then the call on
  \<open>pre\<close>, \<open>t\<close> and any further tokens \<open>post\<close> returns \<open>ErrInvalidFormatOption\<close> and leaves the
  \<open>Option\<close> exactly as the call on \<open>pre\<close> alone leaves it: every pair stored from \<open>pre\<close> is
  in the map (nothing is rolled back), and nothing of \<open>t\<close> or \<open>post\<close> is stored.
\<close>

theorem C8_no_rollback:
  assumes "snd (ParseParams opt pre defaultKey) = None"
    and "snd (ParseParams opt (pre @ [t]) defaultKey) \<noteq> None"
  shows "ParseParams opt (pre @ t # post) defaultKey =
           (fst (ParseParams opt pre defaultKey), Some ErrInvalidFormatOption)
         \<and> Params (fst (ParseParams opt (pre @ t # post) defaultKey)) =
           Some (entries opt ++ map_of (rev (list_pairs False pre)))"
  using assms scan_offending [of defaultKey False "entries opt" pre t post]
  by (simp add: ParseParams_scan)

theorem C8_no_rollback_witness:
  "ParseParams Option_zero [''(a=1'', ''x'', ''b=2)''] ''key'' =
     (Option_zero\<lparr>Params := Some [''a'' \<mapsto> ''1'']\<rparr>, Some ErrInvalidFormatOption)"
proof -
  have h: "snd (ParseParams Option_zero [''(a=1''] ''key'') = None"
    "snd (ParseParams Option_zero ([''(a=1''] @ [''x'']) ''key'') \<noteq> None"
    by (simp_all add: ParseParams_scan SplitN_two)
  show ?thesis
    using C8_no_rollback [OF h, of "[''b=2)'']"]
    by (simp add: ParseParams_scan SplitN_two TrimLeft_def TrimRight_def entries_def Option_zero_def)
qed

section \<open>GetOptional\<close>

text \<open>
  Claim C9. For a decoded value \<open>v\<close> (the decoder returned no error), \<open>GetOptional\<close>
  returns \<open>(true, v[1:])\<close> when \<open>v\<close> is non-empty and begins with \<open>-\<close>, and \<open>(false, v)\<close>
  otherwise, the empty \<open>v\<close> included; only one \<open>-\<close> is removed. When the decoder fails,
  it returns \<open>(false, "")\<close> and the decoder's error.
\<close>

theorem C9_GetOptional:
  "GetOptional (ok, v, None) =
     (if v \<noteq> [] \<and> hd v = CHR ''-'' then (True, tl v, None) else (False, v, None))
   \<and> GetOptional (ok, ''-verbose'', None) = (True, ''verbose'', None)
   \<and> GetOptional (ok, ''verbose'', None) = (False, ''verbose'', None)
   \<and> GetOptional (ok, ''--verbose'', None) = (True, ''-verbose'', None)
   \<and> GetOptional (ok, '''', None) = (False, '''', None)
   \<and> GetOptional (ok, v, Some e) = (False, '''', Some e)"
  by (cases v) (simp_all add: GetOptional_def Get_def)

section \<open>What ParseParams leaves unchanged\<close>

text \<open>
  Claim C10. Whether it fails or not, \<open>ParseParams\<close> leaves \<open>Quit\<close>, \<open>Exec\<close>, \<open>Crosstab\<close> and
  \<open>Watch\<close> as they were; \<open>Params\<close> is never nil afterwards, and a nil \<open>Params\<close> with no
  token at all becomes a fresh empty map; every key other than the default key and the
  keys of the pairs stored by this call holds what it held before the call.
\<close>

theorem C10_frame:
  "Quit (fst (ParseParams opt params defaultKey)) = Quit opt
   \<and> Exec (fst (ParseParams opt params defaultKey)) = Exec opt
   \<and> Crosstab (fst (ParseParams opt params defaultKey)) = Crosstab opt
   \<and> Watch (fst (ParseParams opt params defaultKey)) = Watch opt
   \<and> Params (fst (ParseParams opt params defaultKey)) \<noteq> None
   \<and> (Params opt = None \<longrightarrow>
        ParseParams opt [] defaultKey = (opt\<lparr>Params := Some Map.empty\<rparr>, None))
   \<and> (k \<noteq> defaultKey \<and> k \<notin> fst ` set (list_pairs False params) \<longrightarrow>
        the (Params (fst (ParseParams opt params defaultKey))) k = entries opt k)"
proof -
  have "map_of (rev (list_pairs False params)) k = None"
    if "k \<notin> fst ` set (list_pairs False params)"
    using that by (simp add: map_of_eq_None_iff)
  then show ?thesis
    by (auto simp: ParseParams_scan scan_char map_add_def entries_def list_pairs_def
        split: option.split)
qed

theorem C10_frame_witness:
  "ParseParams Option_example [''(a=1)'', ''foo''] ''key'' =
     (Option_example\<lparr>Params := Some [''x'' \<mapsto> ''y'', ''a'' \<mapsto> ''1'', ''key'' \<mapsto> ''foo'']\<rparr>, None)
   \<and> the (Params (fst (ParseParams Option_example [''(a=1)'', ''foo''] ''key''))) ''x'' = Some ''y''
   \<and> ParseParams Option_zero [] ''key'' = (Option_zero\<lparr>Params := Some Map.empty\<rparr>, None)"
  using C10_frame [of Option_example "[''(a=1)'', ''foo'']" "''key''" "''x''"]
    C10_frame [of Option_zero "[]" "''key''" "''x''"]
  by (simp add: ParseParams_scan SplitN_two TrimLeft_def TrimRight_def entries_def
      Option_zero_def Option_example_def list_pairs_def pair_of_def)

end
